theory Spec2Isabelle
  imports Main "HOL-Library.Multiset" "HOL-Library.Product_Lexorder"
begin

section \<open>Data of the message client\<close>

text \<open>
  A JavaScript string is modelled by the list of its code points, as integers. The script only trims
  strings, compares them and tests them for emptiness, so nothing depends on the
  encoding.
\<close>

type_synonym jstring = "int list"

text \<open>
  One entry of a page returned by the message API. The fields the script tests against
  \<open>null\<close> are optional; \<open>msg_text\<close> is the field \<open>text\<close> (a missing text and the
  empty text take the same branches everywhere), \<open>id_num\<close> is the field \<open>id\<close>.
\<close>

record message =
  id_num :: int
  message_id :: int
  rx_time :: "int option"
  msg_text :: jstring
  reply_to :: "int option"
  from_node_short_name :: "jstring option"

text \<open>
  The children of a \<open>.tapback-container\<close>: an individual pill (an anchor carrying
  \<open>data-tapback-id\<close>, the link's DM flag, the emoji and the author if any), a grouped
  pill (emoji and count, no \<open>data-tapback-id\<close>) and the overflow indicator, whose text
  is \<open>+N more\<close>.
\<close>

datatype pill =
    Tapback_pill int bool jstring "jstring option"
  | Grouped_pill jstring nat
  | Overflow_pill int

record tapback_container =
  dataset_tapbacks :: "message list"
  pills :: "pill list"

text \<open>
  A list item of \<open>#messages-list\<close>: \<open>data-message-id\<close>, \<open>data-rx-time\<close> (absent when
  the entry has no \<open>rx_time\<close>), the class \<open>message-read\<close>, whether the item holds an
  \<open>article.message-item\<close>, and its tapback container once one was created.
\<close>

record message_li =
  li_message_id :: int
  li_rx_time :: "int option"
  li_read :: bool
  li_has_article :: bool
  li_container :: "tapback_container option"

text \<open>What \<open>#main-content\<close> holds, with the heading text where there is one.\<close>

datatype content =
    Content_loading
  | Content_list string "message_li list"
  | Content_empty string
  | Content_error bool
  | Content_other

text \<open>
  The keys of \<open>build_last_read_key\<close>: \<open>rxonly_last_read_dm\<close>, or
  \<open>rxonly_last_read_ch_\<close> followed by the channel index.
\<close>

datatype storage_key = Key_dm | Key_ch "int option"

text \<open>
  A value under such a key: the JSON object \<open>set_last_read\<close> writes (its two fields may
  be \<open>null\<close>), or anything else.
\<close>

datatype stored = Stored_position int "int option" | Stored_other

record read_position =
  rp_message_id :: int
  rp_rx_time :: int

text \<open>
  The scroll statements the script runs on the messages view, in the order run:
  \<open>messages_ul.scrollTop = messages_ul.scrollHeight\<close>; the restoring of a saved offset, by
  \<open>window.scrollTo\<close> when the saved flag \<open>is_mobile\<close> is set and by assigning the list's
  \<open>scrollTop\<close> otherwise; \<open>scrollIntoView\<close> on the item of a message; and the correction
  by the height difference after a prepend, by \<open>window.scrollBy\<close> when \<open>is_mobile\<close> and by
  adding to the list's \<open>scrollTop\<close> otherwise.
\<close>

datatype scroll_cmd =
    List_scroll_to_bottom
  | Scroll_restore int bool
  | Scroll_into_view int
  | Scroll_by_height_diff bool

text \<open>
  The mutable state: the pagination and scroll fields of \<open>app_state\<close> under their own
  names, then the module variable \<open>pending_tapbacks\<close> (a \<open>Map\<close>, kept in insertion
  order), the content of \<open>#main-content\<close>, the \<open>hidden\<close> attribute of
  \<open>#jump-to-newest\<close>, the relevant part of \<open>localStorage\<close> and the scroll commands
  issued so far.
\<close>

record app_state =
  current_channel_index :: "int option"
  messages_has_more_older :: bool
  messages_has_more_newer :: bool
  messages_is_loading :: bool
  messages_oldest_rx_time :: "int option"
  messages_newest_rx_time :: "int option"
  messages_oldest_id :: "int option"
  messages_newest_id :: "int option"
  messages_is_dm :: bool
  messages_total :: int
  saved_messages_scroll_top :: "int option"
  saved_messages_is_mobile :: bool
  saved_messages_channel_index :: "int option"
  saved_messages_is_dm :: bool
  pending_tapbacks :: "(int option \<times> message list) list"
  main_content :: content
  jump_hidden :: bool
  local_storage :: "storage_key \<Rightarrow> stored option"
  scroll_log :: "scroll_cmd list"

section \<open>Scroll position preservation (rxonly.js)\<close>

definition clear_saved_scroll_position :: "app_state \<Rightarrow> app_state" where
  "clear_saved_scroll_position st =
     st\<lparr>saved_messages_scroll_top := None,
        saved_messages_is_mobile := False,
        saved_messages_channel_index := None,
        saved_messages_is_dm := False\<rparr>"

text \<open>The result is the pair \<open>(scroll_top, is_mobile)\<close>, or \<open>None\<close> for \<open>null\<close>.\<close>

definition consume_saved_scroll_position ::
  "bool \<Rightarrow> int option \<Rightarrow> app_state \<Rightarrow> (int \<times> bool) option \<times> app_state" where
  "consume_saved_scroll_position is_dm channel_index st =
     (case saved_messages_scroll_top st of
        None \<Rightarrow> (None, st)
      | Some pos \<Rightarrow>
          if saved_messages_is_dm st \<noteq> is_dm then (None, clear_saved_scroll_position st)
          else if \<not> is_dm \<and> saved_messages_channel_index st \<noteq> channel_index
            then (None, clear_saved_scroll_position st)
          else (Some (pos, saved_messages_is_mobile st), clear_saved_scroll_position st))"

section \<open>Tapback (reaction) utilities (messages.js)\<close>

text \<open>
  What the script takes from the browser and from the page, neither of which is part of
  its sources: the grapheme segmentation of \<open>Intl.Segmenter\<close>, the test of the regular
  expression \<open>\p{Extended_Pictographic}\<close> on one segment, whether \<open>localStorage\<close> can
  be used, which of the page's \<open>template\<close> elements exist, and whether the computed
  \<open>overflow-y\<close> of the list is \<open>visible\<close>: the mobile layout, in which the window
  scrolls and the list does not. A message item template is taken to hold one \<open>li\<close>, a
  list template one \<open>ul#messages-list\<close>.
\<close>

record page_env =
  graphemes :: "jstring \<Rightarrow> jstring list"
  pictographic :: "jstring \<Rightarrow> bool"
  storage_available :: bool
  has_item_template :: bool
  item_has_article :: bool
  has_list_template :: bool
  has_empty_template :: bool
  mobile_layout :: bool

text \<open>The white space and line terminators that \<open>String.prototype.trim\<close> strips.\<close>

definition js_whitespace :: "int \<Rightarrow> bool" where
  "js_whitespace c =
     (c \<in> {0x09, 0x0A, 0x0B, 0x0C, 0x0D, 0x20, 0xA0, 0x1680, 0x2028, 0x2029, 0x202F,
            0x205F, 0x3000, 0xFEFF}
      \<or> (0x2000 \<le> c \<and> c \<le> 0x200A))"

definition trim :: "jstring \<Rightarrow> jstring" where
  "trim s = rev (dropWhile js_whitespace (rev (dropWhile js_whitespace s)))"

definition is_emoji_only :: "page_env \<Rightarrow> jstring \<Rightarrow> bool" where
  "is_emoji_only E txt =
     (if txt = [] then False
      else let trimmed = trim txt in
        if length trimmed = 0 then False
        else let segments = graphemes E trimmed in
          if length segments < 1 \<or> length segments > 3 then False
          else list_all (pictographic E) segments)"

definition is_tapback :: "page_env \<Rightarrow> message \<Rightarrow> bool" where
  "is_tapback E m = (reply_to m \<noteq> None \<and> is_emoji_only E (msg_text m))"

definition clear_pending_tapbacks :: "app_state \<Rightarrow> app_state" where
  "clear_pending_tapbacks st = st\<lparr>pending_tapbacks := []\<rparr>"

text \<open>
  A \<open>Map\<close> from keys to arrays, in insertion order: \<open>map_push k v\<close> is the idiom
  \<open>if (!m.has(k)) m.set(k, []); m.get(k).push(v)\<close>.
\<close>

fun map_push :: "'k \<Rightarrow> 'v \<Rightarrow> ('k \<times> 'v list) list \<Rightarrow> ('k \<times> 'v list) list" where
  "map_push k v [] = [(k, [v])]"
| "map_push k v ((k', vs) # m) =
     (if k' = k then (k', vs @ [v]) # m else (k', vs) # map_push k v m)"

definition store_pending_tapback :: "message \<Rightarrow> app_state \<Rightarrow> app_state" where
  "store_pending_tapback tapback st =
     st\<lparr>pending_tapbacks := map_push (reply_to tapback) tapback (pending_tapbacks st)\<rparr>"

text \<open>\<open>tapback.text.trim()\<close>, the emoji shown on a pill and the key of a group.\<close>

definition emoji_of :: "message \<Rightarrow> jstring" where
  "emoji_of tapback = trim (msg_text tapback)"

definition create_tapback_pill :: "bool \<Rightarrow> message \<Rightarrow> pill" where
  "create_tapback_pill is_dm tapback =
     Tapback_pill (message_id tapback) is_dm (emoji_of tapback)
       (case from_node_short_name tapback of
          None \<Rightarrow> None
        | Some n \<Rightarrow> if n = [] then None else Some n)"

definition create_grouped_tapback :: "jstring \<Rightarrow> nat \<Rightarrow> pill" where
  "create_grouped_tapback emoji n = Grouped_pill emoji n"

text \<open>The sort key of \<open>render_tapbacks\<close>: \<open>rx_time || 0\<close>.\<close>

definition rx_time_or_zero :: "message \<Rightarrow> int" where
  "rx_time_or_zero m = (case rx_time m of None \<Rightarrow> 0 | Some t \<Rightarrow> t)"

definition group_by_emoji :: "message list \<Rightarrow> (jstring \<times> message list) list" where
  "group_by_emoji tapbacks =
     foldl (\<lambda>groups tapback. map_push (emoji_of tapback) tapback groups) [] tapbacks"

definition build_pills :: "bool \<Rightarrow> (jstring \<times> message list) list \<Rightarrow> pill list" where
  "build_pills is_dm groups =
     concat (map (\<lambda>(emoji, group_tapbacks).
        if length group_tapbacks > 5
        then [create_grouped_tapback emoji (length group_tapbacks)]
        else map (create_tapback_pill is_dm) group_tapbacks) groups)"

definition max_pills :: nat where
  "max_pills = 10"

text \<open>
  \<open>render_tapbacks\<close> returns the new children of the container. \<open>Array.prototype.sort\<close>
  is stable, as \<open>sort_key\<close> is.
\<close>

definition render_tapbacks :: "message list \<Rightarrow> bool \<Rightarrow> pill list" where
  "render_tapbacks tapbacks is_dm =
     (if length tapbacks = 0 then []
      else let sorted_tapbacks = sort_key rx_time_or_zero tapbacks;
               all_pills = build_pills is_dm (group_by_emoji sorted_tapbacks);
               overflow = int (length all_pills) - int max_pills;
               visible_pills = (if overflow > 0 then take max_pills all_pills else all_pills)
           in visible_pills @ (if overflow > 0 then [Overflow_pill overflow] else []))"

text \<open>The array \<open>pills\<close> of \<open>render_tapbacks\<close>, before the cap is applied.\<close>

definition all_badges :: "message list \<Rightarrow> bool \<Rightarrow> pill list" where
  "all_badges tapbacks is_dm =
     build_pills is_dm (group_by_emoji (sort_key rx_time_or_zero tapbacks))"

text \<open>Reading a rendered container back: the badges shown and the overflow indicator.\<close>

fun is_overflow :: "pill \<Rightarrow> bool" where
  "is_overflow (Overflow_pill n) = True"
| "is_overflow p = False"

definition visible_badges :: "pill list \<Rightarrow> pill list" where
  "visible_badges ps = filter (\<lambda>p. \<not> is_overflow p) ps"

fun overflow_indicator :: "pill list \<Rightarrow> int option" where
  "overflow_indicator [] = None"
| "overflow_indicator (Overflow_pill n # ps) = Some n"
| "overflow_indicator (p # ps) = overflow_indicator ps"

text \<open>The number of reactions a child of the container stands for.\<close>

fun reactions_referenced :: "pill \<Rightarrow> int" where
  "reactions_referenced (Tapback_pill i d e a) = 1"
| "reactions_referenced (Grouped_pill e n) = int n"
| "reactions_referenced (Overflow_pill n) = n"

section \<open>The document\<close>

text \<open>
  \<open>document.getElementById("messages-list")\<close>: the items of the list, when
  \<open>#main-content\<close> holds one.
\<close>

definition document_list :: "app_state \<Rightarrow> message_li list option" where
  "document_list st =
     (case main_content st of Content_list heading items \<Rightarrow> Some items | _ \<Rightarrow> None)"

definition set_document_list :: "message_li list \<Rightarrow> app_state \<Rightarrow> app_state" where
  "set_document_list items st =
     (case main_content st of
        Content_list heading old \<Rightarrow> st\<lparr>main_content := Content_list heading items\<rparr>
      | _ \<Rightarrow> st)"

text \<open>
  \<open>querySelector('#messages-list li[data-message-id="' + parent_id + '"]')\<close> yields the
  first item whose \<open>data-message-id\<close> is the decimal text of \<open>reply_to\<close>; the
  attribute was written as the decimal text of \<open>message_id\<close>, so the texts agree exactly
  when the numbers do.
\<close>

definition is_parent_of :: "int option \<Rightarrow> message_li \<Rightarrow> bool" where
  "is_parent_of parent_id li = (Some (li_message_id li) = parent_id)"

fun update_first :: "('a \<Rightarrow> bool) \<Rightarrow> ('a \<Rightarrow> 'a) \<Rightarrow> 'a list \<Rightarrow> 'a list" where
  "update_first P f [] = []"
| "update_first P f (x # xs) = (if P x then f x # xs else x # update_first P f xs)"

text \<open>The \<open>data-tapback-id\<close> attributes found in a container.\<close>

fun tapback_ids :: "pill list \<Rightarrow> int list" where
  "tapback_ids [] = []"
| "tapback_ids (Tapback_pill i d e a # ps) = i # tapback_ids ps"
| "tapback_ids (p # ps) = tapback_ids ps"

text \<open>
  The body of \<open>attach_tapback_to_parent\<close> once \<open>parent_li\<close> is found: \<open>None\<close> is the
  \<open>return false\<close> for an item without article, otherwise the item afterwards. The data
  attribute \<open>tapbacks\<close> holds what \<open>JSON.stringify\<close> wrote, which \<open>JSON.parse\<close> gives
  back unchanged.
\<close>

definition attach_to_li :: "message \<Rightarrow> bool \<Rightarrow> message_li \<Rightarrow> message_li option" where
  "attach_to_li tapback is_dm parent_li =
     (case (case li_container parent_li of
              Some c \<Rightarrow> Some c
            | None \<Rightarrow>
                if li_has_article parent_li
                then Some \<lparr>dataset_tapbacks = [], pills = []\<rparr> else None) of
        None \<Rightarrow> None
      | Some container \<Rightarrow>
          if message_id tapback \<in> set (tapback_ids (pills container))
          then Some (parent_li\<lparr>li_container := Some container\<rparr>)
          else let all_tapbacks = dataset_tapbacks container @ [tapback]
               in Some (parent_li\<lparr>li_container :=
                    Some \<lparr>dataset_tapbacks = all_tapbacks,
                          pills = render_tapbacks all_tapbacks is_dm\<rparr>\<rparr>))"

definition attach_tapback_to_parent :: "message \<Rightarrow> bool \<Rightarrow> app_state \<Rightarrow> bool \<times> app_state" where
  "attach_tapback_to_parent tapback is_dm st =
     (case document_list st of
        None \<Rightarrow> (False, st)
      | Some items \<Rightarrow>
          (case find (is_parent_of (reply_to tapback)) items of
             None \<Rightarrow> (False, st)
           | Some parent_li \<Rightarrow>
               (case attach_to_li tapback is_dm parent_li of
                  None \<Rightarrow> (False, st)
                | Some li' \<Rightarrow>
                    (True, set_document_list
                       (update_first (is_parent_of (reply_to tapback)) (\<lambda>x. li') items) st))))"

definition has_parent :: "int option \<Rightarrow> app_state \<Rightarrow> bool" where
  "has_parent parent_id st =
     (case document_list st of
        None \<Rightarrow> False
      | Some items \<Rightarrow> find (is_parent_of parent_id) items \<noteq> None)"

text \<open>
  One round of the \<open>forEach\<close> of \<open>flush_pending_tapbacks\<close>, on the state and the array
  \<open>resolved_parents\<close>.
\<close>

definition flush_entry ::
  "bool \<Rightarrow> int option \<times> message list \<Rightarrow> app_state \<times> int option list \<Rightarrow>
     app_state \<times> int option list" where
  "flush_entry is_dm entry acc =
     (case (entry, acc) of
        ((parent_id, tapbacks), (st, resolved_parents)) \<Rightarrow>
          if has_parent parent_id st
          then (fold (\<lambda>tapback s. snd (attach_tapback_to_parent tapback is_dm s)) tapbacks st,
                resolved_parents @ [parent_id])
          else (st, resolved_parents))"

definition flush_pending_tapbacks :: "bool \<Rightarrow> app_state \<Rightarrow> app_state" where
  "flush_pending_tapbacks is_dm st =
     (if length (pending_tapbacks st) = 0 then st
      else case fold (flush_entry is_dm) (pending_tapbacks st) (st, []) of
        (st', resolved_parents) \<Rightarrow>
          st'\<lparr>pending_tapbacks :=
                filter (\<lambda>(parent_id, tapbacks). parent_id \<notin> set resolved_parents)
                  (pending_tapbacks st')\<rparr>)"

section \<open>Message items and the message list (messages.js)\<close>

text \<open>
  \<open>create_message_item\<close>: \<open>None\<close> when the template is missing. Only the attributes the
  pagination and read tracking use are kept; the sender, time and reply bar of an item
  play no part in them.
\<close>

definition create_message_item :: "page_env \<Rightarrow> message \<Rightarrow> bool \<Rightarrow> message_li option" where
  "create_message_item E m is_dm =
     (if \<not> has_item_template E then None
      else Some \<lparr>li_message_id = message_id m, li_rx_time = rx_time m, li_read = False,
                 li_has_article = item_has_article E, li_container = None\<rparr>)"

definition mark_message_read :: "message_li \<Rightarrow> message_li" where
  "mark_message_read li = (if \<not> li_read li then li\<lparr>li_read := True\<rparr> else li)"

definition update_jump_to_newest_button :: "app_state \<Rightarrow> app_state" where
  "update_jump_to_newest_button st =
     (if messages_has_more_newer st then st\<lparr>jump_hidden := False\<rparr>
      else st\<lparr>jump_hidden := True\<rparr>)"

text \<open>
  The \<open>ul\<close> element a caller hands over: the list of the document, or one that is not
  (yet) part of the document, as in \<open>render_messages_dom\<close>.
\<close>

datatype ul_element = Ul_document | Ul_detached "message_li list"

definition ul_append :: "message_li list \<Rightarrow> ul_element \<Rightarrow> app_state \<Rightarrow> ul_element \<times> app_state" where
  "ul_append fragment ul st =
     (case ul of
        Ul_detached items \<Rightarrow> (Ul_detached (items @ fragment), st)
      | Ul_document \<Rightarrow>
          (case document_list st of
             None \<Rightarrow> (Ul_document, st)
           | Some items \<Rightarrow> (Ul_document, set_document_list (items @ fragment) st)))"

definition ul_insert_first :: "message_li list \<Rightarrow> ul_element \<Rightarrow> app_state \<Rightarrow> ul_element \<times> app_state" where
  "ul_insert_first fragment ul st =
     (case ul of
        Ul_detached items \<Rightarrow> (Ul_detached (fragment @ items), st)
      | Ul_document \<Rightarrow>
          (case document_list st of
             None \<Rightarrow> (Ul_document, st)
           | Some items \<Rightarrow> (Ul_document, set_document_list (fragment @ items) st)))"

definition render_items :: "page_env \<Rightarrow> message list \<Rightarrow> bool \<Rightarrow> message_li list" where
  "render_items E normal is_dm = List.map_filter (\<lambda>m. create_message_item E m is_dm) normal"

definition attach_or_store :: "bool \<Rightarrow> message \<Rightarrow> app_state \<Rightarrow> app_state" where
  "attach_or_store is_dm tapback st =
     (case attach_tapback_to_parent tapback is_dm st of
        (attached, st') \<Rightarrow> if \<not> attached then store_pending_tapback tapback st' else st')"

definition append_messages_to_list ::
  "page_env \<Rightarrow> ul_element \<Rightarrow> message list \<Rightarrow> bool \<Rightarrow> app_state \<Rightarrow> ul_element \<times> app_state" where
  "append_messages_to_list E messages_ul messages is_dm st =
     (let normal = filter (\<lambda>m. \<not> is_tapback E m) messages;
          tapbacks = filter (is_tapback E) messages;
          fragment = render_items E normal is_dm
      in case ul_append fragment messages_ul st of
        (ul', st1) \<Rightarrow>
          (ul', flush_pending_tapbacks is_dm (fold (attach_or_store is_dm) tapbacks st1)))"

definition prepend_messages_to_list ::
  "page_env \<Rightarrow> ul_element \<Rightarrow> message list \<Rightarrow> bool \<Rightarrow> app_state \<Rightarrow> ul_element \<times> app_state" where
  "prepend_messages_to_list E messages_ul messages is_dm st =
     (let normal = filter (\<lambda>m. \<not> is_tapback E m) messages;
          tapbacks = filter (is_tapback E) messages;
          fragment = map mark_message_read (render_items E normal is_dm)
      in case ul_insert_first fragment messages_ul st of
        (ul', st1) \<Rightarrow>
          (case flush_pending_tapbacks is_dm (fold (attach_or_store is_dm) tapbacks st1) of
             st2 \<Rightarrow>
               (ul', st2\<lparr>scroll_log :=
                         scroll_log st2 @ [Scroll_by_height_diff (mobile_layout E)]\<rparr>)))"

section \<open>localStorage read tracking (rxonly.js)\<close>

definition build_last_read_key :: "bool \<Rightarrow> int option \<Rightarrow> storage_key" where
  "build_last_read_key is_dm channel_index = (if is_dm then Key_dm else Key_ch channel_index)"

definition get_last_read :: "page_env \<Rightarrow> bool \<Rightarrow> int option \<Rightarrow> app_state \<Rightarrow> read_position option" where
  "get_last_read E is_dm channel_index st =
     (if \<not> storage_available E then None
      else case local_storage st (build_last_read_key is_dm channel_index) of
        None \<Rightarrow> None
      | Some Stored_other \<Rightarrow> None
      | Some (Stored_position mid None) \<Rightarrow> None
      | Some (Stored_position mid (Some t)) \<Rightarrow> Some \<lparr>rp_message_id = mid, rp_rx_time = t\<rparr>)"

definition set_last_read ::
  "page_env \<Rightarrow> bool \<Rightarrow> int option \<Rightarrow> int \<Rightarrow> int option \<Rightarrow> app_state \<Rightarrow> app_state" where
  "set_last_read E is_dm channel_index mid t st =
     (if \<not> storage_available E then st
      else st\<lparr>local_storage :=
        (local_storage st)(build_last_read_key is_dm channel_index := Some (Stored_position mid t))\<rparr>)"

text \<open>\<open>parseInt(li.dataset.rxTime || "0", 10)\<close>.\<close>

definition parsed_rx_time :: "message_li \<Rightarrow> int" where
  "parsed_rx_time li = (case li_rx_time li of None \<Rightarrow> 0 | Some t \<Rightarrow> t)"

text \<open>
  The layout the browser reports: the bottom of the list's bounding rectangle and the top
  of the rectangle of the item at each index. The script only compares these numbers.
\<close>

record layout =
  container_bottom :: int
  item_top :: "nat \<Rightarrow> int"

text \<open>
  The \<open>for\<close> loop of \<open>update_read_position\<close> from index \<open>i\<close> on: the items with the
  read ones marked, and \<open>last_read_item\<close>.
\<close>

fun scan_items ::
  "layout \<Rightarrow> nat \<Rightarrow> message_li list \<Rightarrow> message_li option \<Rightarrow> message_li list \<times> message_li option" where
  "scan_items L i [] last_read_item = ([], last_read_item)"
| "scan_items L i (x # xs) last_read_item =
     (if item_top L i < container_bottom L
      then (case scan_items L (Suc i) xs (Some x) of
              (ys, r) \<Rightarrow> (mark_message_read x # ys, r))
      else (x # xs, last_read_item))"

definition update_read_position :: "page_env \<Rightarrow> layout \<Rightarrow> app_state \<Rightarrow> app_state" where
  "update_read_position E L st =
     (case document_list st of
        None \<Rightarrow> st
      | Some items \<Rightarrow>
          (case scan_items L 0 items None of
             (items', last_read_item) \<Rightarrow>
               let st1 = set_document_list items' st in
               (case last_read_item of
                  None \<Rightarrow> st1
                | Some li \<Rightarrow>
                    let msg_id = li_message_id li; t = parsed_rx_time li in
                    if msg_id \<noteq> 0 \<and> t \<noteq> 0
                    then (case get_last_read E (messages_is_dm st1) (current_channel_index st1) st1 of
                            None \<Rightarrow>
                              set_last_read E (messages_is_dm st1) (current_channel_index st1)
                                msg_id (Some t) st1
                          | Some current \<Rightarrow>
                              if t > rp_rx_time current
                                 \<or> (t = rp_rx_time current \<and> msg_id > rp_message_id current)
                              then set_last_read E (messages_is_dm st1) (current_channel_index st1)
                                     msg_id (Some t) st1
                              else st1)
                    else st1)))"


section \<open>The message API (rxonly.js)\<close>

text \<open>
  The query \<open>fetch_message_page\<close> sends, and the body it resolves to: \<open>meta\<close> and the
  array under \<open>direct_messages\<close> for a DM query, under \<open>messages\<close> otherwise
  (\<open>entries\<close>). The server is a function from queries to bodies; \<open>None\<close> is a rejected
  promise (no connection, a status that is not ok, a body that is not JSON).
\<close>

record fetch_options =
  opt_is_dm :: bool
  opt_channel_index :: "int option"
  opt_after_rx_time :: "int option"
  opt_before_rx_time :: "int option"
  opt_newest :: bool

record query =
  q_direct_messages :: bool
  q_channel_index :: "int option"
  q_after_rx_time :: "int option"
  q_before_rx_time :: "int option"
  q_newest :: bool
  q_limit :: int

record api_response =
  meta_has_more_older :: bool
  meta_has_more_newer :: bool
  meta_total :: int
  entries :: "message list"

type_synonym server = "query \<Rightarrow> api_response option"

definition fetch_message_page :: "server \<Rightarrow> fetch_options \<Rightarrow> api_response option" where
  "fetch_message_page srv options =
     srv \<lparr>q_direct_messages = opt_is_dm options,
          q_channel_index = (if \<not> opt_is_dm options then opt_channel_index options else None),
          q_after_rx_time = opt_after_rx_time options,
          q_before_rx_time = opt_before_rx_time options,
          q_newest = opt_newest options,
          q_limit = 50\<rparr>"

text \<open>
  The relational operators of JavaScript on a number or \<open>null\<close>: \<open>null\<close> counts as 0.
  Strict equality is equality of the options.
\<close>

definition js_num :: "int option \<Rightarrow> int" where
  "js_num v = (case v of None \<Rightarrow> 0 | Some n \<Rightarrow> n)"

definition js_less :: "int option \<Rightarrow> int option \<Rightarrow> bool" where
  "js_less a b = (js_num a < js_num b)"

definition update_message_cursors :: "api_response \<Rightarrow> bool \<Rightarrow> app_state \<Rightarrow> app_state" where
  "update_message_cursors data is_dm st =
     (let messages = entries data;
          st1 = st\<lparr>messages_has_more_older := meta_has_more_older data,
                   messages_has_more_newer := meta_has_more_newer data,
                   messages_total := meta_total data\<rparr>
      in case messages of
        [] \<Rightarrow> st1
      | first # rest \<Rightarrow>
          let lst = last messages;
              st2 = (if messages_oldest_rx_time st1 = None
                        \<or> js_less (rx_time first) (messages_oldest_rx_time st1)
                        \<or> (rx_time first = messages_oldest_rx_time st1
                            \<and> js_less (Some (id_num first)) (messages_oldest_id st1))
                     then st1\<lparr>messages_oldest_rx_time := rx_time first,
                              messages_oldest_id := Some (id_num first)\<rparr>
                     else st1)
          in if messages_newest_rx_time st2 = None
                \<or> js_less (messages_newest_rx_time st2) (rx_time lst)
                \<or> (rx_time lst = messages_newest_rx_time st2
                    \<and> js_less (messages_newest_id st2) (Some (id_num lst)))
             then st2\<lparr>messages_newest_rx_time := rx_time lst,
                      messages_newest_id := Some (id_num lst)\<rparr>
             else st2)"


section \<open>Rendering a messages view (messages.js)\<close>


definition mark_all_read :: "app_state \<Rightarrow> app_state" where
  "mark_all_read st =
     (case document_list st of
        None \<Rightarrow> st
      | Some items \<Rightarrow> set_document_list (map mark_message_read items) st)"

definition scroll_to_bottom :: "app_state \<Rightarrow> app_state" where
  "scroll_to_bottom st =
     (case document_list st of
        None \<Rightarrow> st
      | Some items \<Rightarrow> st\<lparr>scroll_log := scroll_log st @ [List_scroll_to_bottom]\<rparr>)"





section \<open>Message pagination (messages.js, views.js)\<close>

text \<open>
  An asynchronous operation runs up to its \<open>await\<close>, and resumes when the fetch has
  settled; nothing of the script runs in between two statements otherwise. So each
  operation is two steps. The first is \<open>None\<close> when the operation returns at once, and
  else the options of the fetch it starts with the state it leaves behind while the fetch
  is in flight. The second takes the options (the operation's local variables) and the
  outcome of the fetch, \<open>None\<close> for a rejected one. The list element the operation holds
  is the one of the document.
\<close>

definition handle_jump_to_newest_begin :: "app_state \<Rightarrow> (fetch_options \<times> app_state) option" where
  "handle_jump_to_newest_begin st =
     (if document_list st = None \<or> messages_is_loading st then None
      else Some (\<lparr>opt_is_dm = messages_is_dm st, opt_channel_index = current_channel_index st,
                  opt_after_rx_time = None, opt_before_rx_time = None, opt_newest = True\<rparr>,
                 clear_pending_tapbacks (st\<lparr>messages_is_loading := True\<rparr>)))"

definition handle_jump_to_newest_finish ::
  "page_env \<Rightarrow> fetch_options \<Rightarrow> api_response option \<Rightarrow> app_state \<Rightarrow> app_state" where
  "handle_jump_to_newest_finish E options outcome st =
     (case outcome of
        None \<Rightarrow> st\<lparr>messages_is_loading := False\<rparr>
      | Some data \<Rightarrow>
          let is_dm = opt_is_dm options;
              channel_index = opt_channel_index options;
              messages = entries data;
              st1 = update_message_cursors data is_dm
                      (st\<lparr>messages_oldest_rx_time := None, messages_newest_rx_time := None,
                          messages_oldest_id := None, messages_newest_id := None\<rparr>);
              st2 = snd (append_messages_to_list E Ul_document messages is_dm
                           (set_document_list [] st1));
              st3 = scroll_to_bottom (mark_all_read st2);
              st4 = (if length messages > 0
                     then set_last_read E is_dm channel_index
                            (message_id (last messages)) (rx_time (last messages)) st3
                     else st3)
          in (update_jump_to_newest_button st4)\<lparr>messages_is_loading := False\<rparr>)"

definition load_older_messages_begin :: "app_state \<Rightarrow> (fetch_options \<times> app_state) option" where
  "load_older_messages_begin st =
     (if messages_is_loading st \<or> \<not> messages_has_more_older st then None
      else if messages_oldest_rx_time st = None then None
      else if document_list st = None then None
      else Some (\<lparr>opt_is_dm = messages_is_dm st, opt_channel_index = current_channel_index st,
                  opt_after_rx_time = None,
                  opt_before_rx_time = messages_oldest_rx_time st, opt_newest = False\<rparr>,
                 st\<lparr>messages_is_loading := True\<rparr>))"

definition load_older_messages_finish ::
  "page_env \<Rightarrow> fetch_options \<Rightarrow> api_response option \<Rightarrow> app_state \<Rightarrow> app_state" where
  "load_older_messages_finish E options outcome st =
     (case outcome of
        None \<Rightarrow> st\<lparr>messages_is_loading := False\<rparr>
      | Some data \<Rightarrow>
          (case entries data of
             [] \<Rightarrow> st\<lparr>messages_has_more_older := False, messages_is_loading := False\<rparr>
           | first # rest \<Rightarrow>
               (snd (prepend_messages_to_list E Ul_document (entries data) (opt_is_dm options)
                       (st\<lparr>messages_has_more_older := meta_has_more_older data,
                           messages_oldest_rx_time := rx_time first,
                           messages_oldest_id := Some (id_num first)\<rparr>)))
                 \<lparr>messages_is_loading := False\<rparr>))"

definition load_newer_messages_begin :: "app_state \<Rightarrow> (fetch_options \<times> app_state) option" where
  "load_newer_messages_begin st =
     (if messages_is_loading st \<or> \<not> messages_has_more_newer st then None
      else if messages_newest_rx_time st = None then None
      else if document_list st = None then None
      else Some (\<lparr>opt_is_dm = messages_is_dm st, opt_channel_index = current_channel_index st,
                  opt_after_rx_time = messages_newest_rx_time st,
                  opt_before_rx_time = None, opt_newest = False\<rparr>,
                 st\<lparr>messages_is_loading := True\<rparr>))"

definition load_newer_messages_finish ::
  "page_env \<Rightarrow> fetch_options \<Rightarrow> api_response option \<Rightarrow> app_state \<Rightarrow> app_state" where
  "load_newer_messages_finish E options outcome st =
     (case outcome of
        None \<Rightarrow> st\<lparr>messages_is_loading := False\<rparr>
      | Some data \<Rightarrow>
          (case entries data of
             [] \<Rightarrow> (update_jump_to_newest_button (st\<lparr>messages_has_more_newer := False\<rparr>))
                     \<lparr>messages_is_loading := False\<rparr>
           | first # rest \<Rightarrow>
               (update_jump_to_newest_button
                  (snd (append_messages_to_list E Ul_document (entries data) (opt_is_dm options)
                          (st\<lparr>messages_has_more_newer := meta_has_more_newer data,
                              messages_newest_rx_time := rx_time (last (entries data)),
                              messages_newest_id := Some (id_num (last (entries data)))\<rparr>))))
                 \<lparr>messages_is_loading := False\<rparr>))"

text \<open>\<open>update_messages_list\<close> of views.js, the poll.\<close>

definition update_messages_list_begin :: "bool \<Rightarrow> app_state \<Rightarrow> (fetch_options \<times> app_state) option" where
  "update_messages_list_begin is_direct_messages st =
     (if document_list st = None then None
      else if messages_is_loading st then None
      else if messages_newest_rx_time st = None then None
      else Some (\<lparr>opt_is_dm = is_direct_messages,
                  opt_channel_index =
                    (if is_direct_messages then None else current_channel_index st),
                  opt_after_rx_time = messages_newest_rx_time st,
                  opt_before_rx_time = None, opt_newest = False\<rparr>,
                 st))"

definition update_messages_list_finish ::
  "page_env \<Rightarrow> fetch_options \<Rightarrow> api_response option \<Rightarrow> app_state \<Rightarrow> app_state" where
  "update_messages_list_finish E options outcome st =
     (case outcome of
        None \<Rightarrow> st
      | Some data \<Rightarrow>
          let st1 = (case entries data of
                       [] \<Rightarrow> st
                     | first # rest \<Rightarrow>
                         snd (append_messages_to_list E Ul_document (entries data)
                                (opt_is_dm options)
                                (st\<lparr>messages_newest_rx_time := rx_time (last (entries data)),
                                    messages_newest_id := Some (id_num (last (entries data)))\<rparr>)))
          in update_jump_to_newest_button
               (st1\<lparr>messages_has_more_newer := meta_has_more_newer data,
                    messages_total := meta_total data\<rparr>))"

text \<open>An operation run from its call to its end, with nothing else in between.\<close>

definition run_operation ::
  "server \<Rightarrow> (app_state \<Rightarrow> (fetch_options \<times> app_state) option) \<Rightarrow>
     (fetch_options \<Rightarrow> api_response option \<Rightarrow> app_state \<Rightarrow> app_state) \<Rightarrow> app_state \<Rightarrow> app_state" where
  "run_operation srv begin finish st =
     (case begin st of
        None \<Rightarrow> st
      | Some (options, st1) \<Rightarrow> finish options (fetch_message_page srv options) st1)"

definition load_older_messages :: "page_env \<Rightarrow> server \<Rightarrow> app_state \<Rightarrow> app_state" where
  "load_older_messages E srv =
     run_operation srv load_older_messages_begin (load_older_messages_finish E)"

definition load_newer_messages :: "page_env \<Rightarrow> server \<Rightarrow> app_state \<Rightarrow> app_state" where
  "load_newer_messages E srv =
     run_operation srv load_newer_messages_begin (load_newer_messages_finish E)"

definition handle_jump_to_newest :: "page_env \<Rightarrow> server \<Rightarrow> app_state \<Rightarrow> app_state" where
  "handle_jump_to_newest E srv =
     run_operation srv handle_jump_to_newest_begin (handle_jump_to_newest_finish E)"

definition update_messages_list :: "page_env \<Rightarrow> server \<Rightarrow> bool \<Rightarrow> app_state \<Rightarrow> app_state" where
  "update_messages_list E srv is_direct_messages =
     run_operation srv (update_messages_list_begin is_direct_messages)
       (update_messages_list_finish E)"

section \<open>Reading the state\<close>

text \<open>
  The materialized window as the list of the \<open>data-message-id\<close> attributes of its items,
  and the tapback containers of the items.
\<close>

definition window_ids :: "app_state \<Rightarrow> int list" where
  "window_ids st = (case document_list st of None \<Rightarrow> [] | Some items \<Rightarrow> map li_message_id items)"

text \<open>The heading and the message ids of a content that is a messages list.\<close>

definition window_of :: "content \<Rightarrow> (string \<times> int list) option" where
  "window_of c =
     (case c of Content_list heading items \<Rightarrow> Some (heading, map li_message_id items)
      | _ \<Rightarrow> None)"

text \<open>The message ids of the primary entries of a page, in the order of the page.\<close>

definition primary_ids :: "page_env \<Rightarrow> message list \<Rightarrow> int list" where
  "primary_ids E messages = map message_id (filter (\<lambda>m. \<not> is_tapback E m) messages)"

definition parent_containers :: "app_state \<Rightarrow> tapback_container option list" where
  "parent_containers st =
     (case document_list st of None \<Rightarrow> [] | Some items \<Rightarrow> map li_container items)"


text \<open>
  The item \<open>update_read_position\<close> would commit under a layout (its \<open>last_read_item\<close>),
  the pair \<open>(rx_time, message_id)\<close> it reads off that item, and the pair stored for the
  conversation on screen.
\<close>

definition read_candidate :: "layout \<Rightarrow> app_state \<Rightarrow> message_li option" where
  "read_candidate L st =
     (case document_list st of None \<Rightarrow> None | Some items \<Rightarrow> snd (scan_items L 0 items None))"

definition position_of :: "message_li \<Rightarrow> int \<times> int" where
  "position_of li = (parsed_rx_time li, li_message_id li)"

definition stored_position :: "page_env \<Rightarrow> app_state \<Rightarrow> (int \<times> int) option" where
  "stored_position E st =
     map_option (\<lambda>p. (rp_rx_time p, rp_message_id p))
       (get_last_read E (messages_is_dm st) (current_channel_index st) st)"

section \<open>Concrete states and pages\<close>

text \<open>The initial values of \<open>app_state\<close> in rxonly.js, with an empty page around them.\<close>

definition initial_app_state :: app_state where
  "initial_app_state =
     \<lparr>current_channel_index = None,
      messages_has_more_older = False,
      messages_has_more_newer = False,
      messages_is_loading = False,
      messages_oldest_rx_time = None,
      messages_newest_rx_time = None,
      messages_oldest_id = None,
      messages_newest_id = None,
      messages_is_dm = False,
      messages_total = 0,
      saved_messages_scroll_top = None,
      saved_messages_is_mobile = False,
      saved_messages_channel_index = None,
      saved_messages_is_dm = False,
      pending_tapbacks = [],
      main_content = Content_other,
      jump_hidden = True,
      local_storage = (\<lambda>k. None),
      scroll_log = []\<rparr>"

text \<open>
  A browser that takes every code point for a grapheme of its own and the code points
  from U+1F300 on for pictographic, on a page that has all templates, in the desktop
  layout; and the same in the mobile layout.
\<close>

definition example_env :: page_env where
  "example_env =
     \<lparr>graphemes = map (\<lambda>c. [c]),
      pictographic = list_ex (\<lambda>c. 0x1F300 \<le> c),
      storage_available = True,
      has_item_template = True,
      item_has_article = True,
      has_list_template = True,
      has_empty_template = True,
      mobile_layout = False\<rparr>"


text \<open>A channel view left at scroll offset 120 of channel 2.\<close>

definition saved_example :: app_state where
  "saved_example =
     initial_app_state\<lparr>saved_messages_scroll_top := Some 120,
                       saved_messages_channel_index := Some 2\<rparr>"

text \<open>
  Channel 2 with an empty list on screen, cursors at \<open>(100, 1)\<close> and \<open>(200, 9)\<close> and more
  pages announced in both directions; a server that has nothing to return.
\<close>

definition paging_example :: app_state where
  "paging_example =
     initial_app_state\<lparr>current_channel_index := Some 2,
                       messages_has_more_older := True,
                       messages_has_more_newer := True,
                       messages_oldest_rx_time := Some 100,
                       messages_newest_rx_time := Some 200,
                       messages_oldest_id := Some 1,
                       messages_newest_id := Some 9,
                       main_content := Content_list ''General'' [],
                       jump_hidden := False\<rparr>"

definition empty_page :: api_response where
  "empty_page =
     \<lparr>meta_has_more_older = False, meta_has_more_newer = False, meta_total = 0, entries = []\<rparr>"

definition silent_server :: server where
  "silent_server q = Some empty_page"

text \<open>
  Reactions to message 1, each received at the time that is its id: six thumbs-up, a heart
  and a laughing face; and five hearts, five laughing faces and six thumbs-up.
\<close>

definition reaction :: "int \<Rightarrow> int \<Rightarrow> jstring \<Rightarrow> message" where
  "reaction i t emoji =
     \<lparr>id_num = i, message_id = i, rx_time = Some t, msg_text = emoji, reply_to = Some 1,
      from_node_short_name = None\<rparr>"


definition sixteen_reactions :: "message list" where
  "sixteen_reactions =
     map (\<lambda>i. reaction i i [0x2764]) [11, 12, 13, 14, 15]
       @ map (\<lambda>i. reaction i i [0x1F602]) [21, 22, 23, 24, 25]
       @ map (\<lambda>i. reaction i i [0x1F44D]) [31, 32, 33, 34, 35, 36]"

text \<open>
  A channel view showing message 1 alone, the six thumbs-up for it, and the attachment of
  a list of reactions one after the other.
\<close>

definition parent_item :: message_li where
  "parent_item =
     \<lparr>li_message_id = 1, li_rx_time = Some 5, li_read = True, li_has_article = True,
      li_container = None\<rparr>"

definition parent_view :: app_state where
  "parent_view = initial_app_state\<lparr>main_content := Content_list ''General'' [parent_item]\<rparr>"

definition thumbs :: "message list" where
  "thumbs = map (\<lambda>i. reaction i i [0x1F44D]) [11, 12, 13, 14, 15, 16]"

definition attach_all :: "message list \<Rightarrow> app_state \<Rightarrow> app_state" where
  "attach_all tapbacks st = fold (\<lambda>t s. snd (attach_tapback_to_parent t False s)) tapbacks st"

text \<open>A text message with row id, message id and time of receipt; a page of messages.\<close>

definition plain_message :: "int \<Rightarrow> int \<Rightarrow> int \<Rightarrow> message" where
  "plain_message i mid t =
     \<lparr>id_num = i, message_id = mid, rx_time = Some t, msg_text = [0x68, 0x69], reply_to = None,
      from_node_short_name = None\<rparr>"

definition page_of :: "message list \<Rightarrow> api_response" where
  "page_of ms =
     \<lparr>meta_has_more_older = True, meta_has_more_newer = True, meta_total = 40, entries = ms\<rparr>"

definition one_message_server :: server where
  "one_message_server q = Some (page_of [plain_message 5 7 150])"

text \<open>
  Channel 2 with two messages on screen and the first of them stored as read; a layout
  that shows both above the bottom of the list, and one that shows only the first.
\<close>

definition reading_example :: app_state where
  "reading_example =
     initial_app_state
       \<lparr>current_channel_index := Some 2,
        main_content := Content_list ''General''
          [\<lparr>li_message_id = 3, li_rx_time = Some 50, li_read = True, li_has_article = True,
            li_container = None\<rparr>,
           \<lparr>li_message_id = 4, li_rx_time = Some 60, li_read = False, li_has_article = True,
            li_container = None\<rparr>],
        local_storage := (\<lambda>k. if k = Key_ch (Some 2) then Some (Stored_position 3 (Some 50)) else None)\<rparr>"

definition both_visible :: layout where
  "both_visible = \<lparr>container_bottom = 100, item_top = (\<lambda>i. if i = 0 then 10 else 40)\<rparr>"

definition first_visible :: layout where
  "first_visible = \<lparr>container_bottom = 100, item_top = (\<lambda>i. if i = 0 then 10 else 200)\<rparr>"


section \<open>The saved scroll position\<close>

text \<open>
  C10. While a scroll position is saved, \<open>consume_saved_scroll_position\<close> returns it
  (with its mobile flag) exactly when the saved context matches the request: the same DM
  flag and, for a channel, the same channel index. Whether it matches or not, the call
  clears the saved position, so that a call right after it returns \<open>null\<close> for every
  request.
\<close>

theorem consume_saved_scroll_position_single_use:
  assumes "saved_messages_scroll_top st = Some pos"
  shows "fst (consume_saved_scroll_position is_dm channel_index st) =
           (if saved_messages_is_dm st = is_dm
               \<and> (is_dm \<or> saved_messages_channel_index st = channel_index)
            then Some (pos, saved_messages_is_mobile st) else None)
         \<and> snd (consume_saved_scroll_position is_dm channel_index st) =
             clear_saved_scroll_position st
         \<and> saved_messages_scroll_top (snd (consume_saved_scroll_position is_dm channel_index st)) = None
         \<and> fst (consume_saved_scroll_position is_dm' channel_index'
                  (snd (consume_saved_scroll_position is_dm channel_index st))) = None"
  using assms
  by (auto simp: consume_saved_scroll_position_def clear_saved_scroll_position_def)

theorem consume_saved_scroll_position_single_use_witness:
  "saved_messages_scroll_top saved_example = Some 120
   \<and> fst (consume_saved_scroll_position False (Some 2) saved_example) = Some (120, False)
   \<and> fst (consume_saved_scroll_position False (Some 3) saved_example) = None
   \<and> fst (consume_saved_scroll_position False (Some 2)
            (snd (consume_saved_scroll_position False (Some 3) saved_example))) = None"
proof -
  have h: "saved_messages_scroll_top saved_example = Some 120"
    by (simp add: saved_example_def initial_app_state_def)
  have a: "saved_messages_is_dm saved_example = False"
     "saved_messages_channel_index saved_example = Some 2"
     "saved_messages_is_mobile saved_example = False"
    by (simp_all add: saved_example_def initial_app_state_def)
  have c1: "fst (consume_saved_scroll_position False (Some 2) saved_example) = Some (120, False)"
    using consume_saved_scroll_position_single_use [OF h, of False "Some 2"] a by simp
  have c2: "fst (consume_saved_scroll_position False (Some 3) saved_example) = None"
    using consume_saved_scroll_position_single_use [OF h, of False "Some 3"] a by simp
  have c3: "fst (consume_saved_scroll_position False (Some 2)
            (snd (consume_saved_scroll_position False (Some 3) saved_example))) = None"
    using consume_saved_scroll_position_single_use [OF h, of False "Some 3" False "Some 2"]
    by blast
  show ?thesis using h c1 c2 c3 by blast
qed

section \<open>Empty pages\<close>

text \<open>
  C9. When \<open>load_older_messages\<close> gets past its guards and its fetch resolves to an empty
  page, all it changes is \<open>messages_has_more_older\<close>, which becomes false: the flag for
  newer pages, the four cursor fields and the list are as before. When
  \<open>load_newer_messages\<close> does, all it changes is \<open>messages_has_more_newer\<close>, which
  becomes false, and with it the jump button, which is hidden.
\<close>

theorem empty_page_frame:
  "(load_older_messages_begin st = Some (options, st1)
      \<and> fetch_message_page srv options = Some data \<and> entries data = []
     \<longrightarrow> load_older_messages E srv st = st\<lparr>messages_has_more_older := False\<rparr>)
   \<and> (load_newer_messages_begin st = Some (options', st1')
      \<and> fetch_message_page srv options' = Some data' \<and> entries data' = []
     \<longrightarrow> load_newer_messages E srv st =
          st\<lparr>messages_has_more_newer := False, jump_hidden := True\<rparr>)"
  by (auto simp: load_older_messages_def load_newer_messages_def run_operation_def
      load_older_messages_begin_def load_newer_messages_begin_def
      load_older_messages_finish_def load_newer_messages_finish_def
      update_jump_to_newest_button_def split: if_splits)

theorem empty_page_frame_witness:
  "load_older_messages_begin paging_example =
     Some (\<lparr>opt_is_dm = False, opt_channel_index = Some 2, opt_after_rx_time = None,
            opt_before_rx_time = Some 100, opt_newest = False\<rparr>,
           paging_example\<lparr>messages_is_loading := True\<rparr>)
   \<and> load_newer_messages_begin paging_example =
     Some (\<lparr>opt_is_dm = False, opt_channel_index = Some 2, opt_after_rx_time = Some 200,
            opt_before_rx_time = None, opt_newest = False\<rparr>,
           paging_example\<lparr>messages_is_loading := True\<rparr>)
   \<and> fetch_message_page silent_server
         \<lparr>opt_is_dm = False, opt_channel_index = Some 2, opt_after_rx_time = None,
          opt_before_rx_time = Some 100, opt_newest = False\<rparr> = Some empty_page
   \<and> fetch_message_page silent_server
         \<lparr>opt_is_dm = False, opt_channel_index = Some 2, opt_after_rx_time = Some 200,
          opt_before_rx_time = None, opt_newest = False\<rparr> = Some empty_page
   \<and> entries empty_page = []
   \<and> load_older_messages example_env silent_server paging_example =
       paging_example\<lparr>messages_has_more_older := False\<rparr>
   \<and> load_newer_messages example_env silent_server paging_example =
       paging_example\<lparr>messages_has_more_newer := False, jump_hidden := True\<rparr>"
proof -
  have older: "load_older_messages_begin paging_example =
     Some (\<lparr>opt_is_dm = False, opt_channel_index = Some 2, opt_after_rx_time = None,
            opt_before_rx_time = Some 100, opt_newest = False\<rparr>,
           paging_example\<lparr>messages_is_loading := True\<rparr>)"
    by (simp add: load_older_messages_begin_def paging_example_def initial_app_state_def
        document_list_def)
  have newer: "load_newer_messages_begin paging_example =
     Some (\<lparr>opt_is_dm = False, opt_channel_index = Some 2, opt_after_rx_time = Some 200,
            opt_before_rx_time = None, opt_newest = False\<rparr>,
           paging_example\<lparr>messages_is_loading := True\<rparr>)"
    by (simp add: load_newer_messages_begin_def paging_example_def initial_app_state_def
        document_list_def)
  have fetched: "fetch_message_page silent_server options = Some empty_page" for options
    by (simp add: fetch_message_page_def silent_server_def)
  have none: "entries empty_page = []"
    by (simp add: empty_page_def)
  show ?thesis
    using empty_page_frame [where st = paging_example and srv = silent_server
        and data = empty_page and data' = empty_page and E = example_env]
      older newer fetched none
    by blast
qed

section \<open>Grouping reactions into badges\<close>




lemma sizes_map_push:
  "sum_list (map (\<lambda>g. length (snd g)) (map_push k v m)) = Suc (sum_list (map (\<lambda>g. length (snd g)) m))"
  by (induction m) auto

lemma group_by_emoji_snoc:
  "group_by_emoji (ts @ [t]) = map_push (emoji_of t) t (group_by_emoji ts)"
  by (simp add: group_by_emoji_def)

lemma group_by_emoji_Nil: "group_by_emoji [] = []"
  by (simp add: group_by_emoji_def)


lemma group_sizes: "sum_list (map (\<lambda>g. length (snd g)) (group_by_emoji ts)) = length ts"
  by (induction ts rule: rev_induct) (simp_all add: group_by_emoji_Nil group_by_emoji_snoc sizes_map_push)



lemma build_pills_not_overflow: "p \<in> set (build_pills is_dm groups) \<Longrightarrow> \<not> is_overflow p"
  by (auto simp: build_pills_def create_grouped_tapback_def create_tapback_pill_def
      split: if_splits)


lemma overflow_indicator_append:
  "(\<And>p. p \<in> set ps \<Longrightarrow> \<not> is_overflow p) \<Longrightarrow>
     overflow_indicator (ps @ qs) = overflow_indicator qs"
proof (induction ps)
  case Nil
  then show ?case by simp
next
  case (Cons p ps)
  from Cons.prems [of p] have "\<not> is_overflow p" by simp
  with Cons show ?case by (cases p) simp_all
qed

lemma build_pills_referenced:
  "sum_list (map reactions_referenced (build_pills is_dm groups)) =
     int (sum_list (map (\<lambda>g. length (snd g)) groups))"
proof (induction groups)
  case Nil
  then show ?case by (simp add: build_pills_def)
next
  case (Cons g groups)
  have one: "sum_list (map (reactions_referenced \<circ> create_tapback_pill is_dm) vs) = int (length vs)"
    for vs
    by (induction vs) (simp_all add: create_tapback_pill_def)
  from Cons show ?case
    by (cases g) (simp add: build_pills_def create_grouped_tapback_def one)
qed

lemma referenced_at_least_one:
  "p \<in> set (build_pills is_dm groups) \<Longrightarrow> 1 \<le> reactions_referenced p"
  by (auto simp: build_pills_def create_grouped_tapback_def create_tapback_pill_def
      split: if_splits)

lemma all_badges_referenced:
  "sum_list (map reactions_referenced (all_badges ts is_dm)) = int (length ts)"
  by (simp add: all_badges_def build_pills_referenced group_sizes)

lemma render_tapbacks_capped:
  assumes "length (all_badges ts is_dm) > 10"
  shows "render_tapbacks ts is_dm =
           take 10 (all_badges ts is_dm) @ [Overflow_pill (int (length (all_badges ts is_dm)) - 10)]"
proof -
  have "ts \<noteq> []"
    using assms by (auto simp: all_badges_def group_by_emoji_Nil build_pills_def)
  with assms show ?thesis
    by (simp add: render_tapbacks_def all_badges_def max_pills_def Let_def)
qed


lemma all_badges_not_overflow: "p \<in> set (all_badges ts is_dm) \<Longrightarrow> \<not> is_overflow p"
  unfolding all_badges_def by (rule build_pills_not_overflow)

lemma sum_list_ge_length:
  "(\<And>x. x \<in> set xs \<Longrightarrow> (1::int) \<le> f x) \<Longrightarrow> int (length xs) \<le> sum_list (map f xs)"
  by (induction xs) (auto simp: add_mono)

text \<open>
  C3, as the script has it. When the reactions of a parent make more than 10 badges (a
  collapsed group being one badge), \<open>render_tapbacks\<close> shows the first 10 of them and
  then the indicator \<open>+N more\<close>, where \<open>N\<close> is the number of badges left out: the
  script computes it as \<open>pills.length - max_pills\<close>. That number is at most the number of
  reactions left out, since every badge stands for at least one reaction.
\<close>

theorem render_tapbacks_overflow:
  assumes "length (all_badges ts is_dm) > 10"
  shows "render_tapbacks ts is_dm =
           take 10 (all_badges ts is_dm) @ [Overflow_pill (int (length (all_badges ts is_dm)) - 10)]
         \<and> length (visible_badges (render_tapbacks ts is_dm)) = 10
         \<and> overflow_indicator (render_tapbacks ts is_dm) =
             Some (int (length (all_badges ts is_dm)) - int (length (visible_badges (render_tapbacks ts is_dm))))
         \<and> int (length (all_badges ts is_dm)) - 10
             \<le> int (length ts)
                 - sum_list (map reactions_referenced (visible_badges (render_tapbacks ts is_dm)))"
proof -
  let ?all = "all_badges ts is_dm"
  let ?n = "int (length ?all) - 10"
  have r: "render_tapbacks ts is_dm = take 10 ?all @ [Overflow_pill ?n]"
    using assms by (rule render_tapbacks_capped)
  have clean: "\<not> is_overflow p" if "p \<in> set (take 10 ?all)" for p
    using that all_badges_not_overflow by (meson in_set_takeD)
  have v: "visible_badges (render_tapbacks ts is_dm) = take 10 ?all"
    unfolding r using clean by (simp add: visible_badges_def filter_id_conv)
  have len: "length (take 10 ?all) = 10"
    using assms by simp
  have ind: "overflow_indicator (render_tapbacks ts is_dm) = Some ?n"
    unfolding r using overflow_indicator_append [of "take 10 ?all" "[Overflow_pill ?n]"] clean
    by simp
  have split: "sum_list (map reactions_referenced ?all) =
      sum_list (map reactions_referenced (take 10 ?all))
      + sum_list (map reactions_referenced (drop 10 ?all))"
    by (metis append_take_drop_id map_append sum_list_append)
  have "int (length (drop 10 ?all)) \<le> sum_list (map reactions_referenced (drop 10 ?all))"
  proof (rule sum_list_ge_length)
    fix p assume "p \<in> set (drop 10 ?all)"
    then have "p \<in> set ?all" by (rule in_set_dropD)
    then show "1 \<le> reactions_referenced p"
      unfolding all_badges_def by (rule referenced_at_least_one)
  qed
  moreover have "int (length (drop 10 ?all)) = ?n"
    using assms by simp
  ultimately have le: "?n \<le> int (length ts) - sum_list (map reactions_referenced (take 10 ?all))"
    using split all_badges_referenced [of ts is_dm] by linarith
  show ?thesis
    using r v len ind le by simp
qed


theorem render_tapbacks_overflow_witness:
  "length (all_badges sixteen_reactions False) > 10
   \<and> length (visible_badges (render_tapbacks sixteen_reactions False)) = 10
   \<and> overflow_indicator (render_tapbacks sixteen_reactions False) = Some 1"
proof -
  have n: "length (all_badges sixteen_reactions False) = 11"
    by code_simp
  then have h: "length (all_badges sixteen_reactions False) > 10"
    by simp
  from render_tapbacks_overflow [OF h]
  have "length (visible_badges (render_tapbacks sixteen_reactions False)) = 10"
    and "overflow_indicator (render_tapbacks sixteen_reactions False) =
      Some (int (length (all_badges sixteen_reactions False))
            - int (length (visible_badges (render_tapbacks sixteen_reactions False))))"
    by blast+
  with h n show ?thesis
    by simp
qed

text \<open>
  The indicator does not count reactions: with five hearts, five laughing faces and six
  thumbs-up the eleventh badge is the collapsed group of six, the indicator reads
  \<open>+1 more\<close>, and six reactions are left out.
\<close>

theorem overflow_counts_reactions_counterexample:
  "length (all_badges sixteen_reactions False) > 10
   \<and> overflow_indicator (render_tapbacks sixteen_reactions False) = Some 1
   \<and> int (length sixteen_reactions)
       - sum_list (map reactions_referenced
           (visible_badges (render_tapbacks sixteen_reactions False))) = 6"
  by code_simp







section \<open>Attaching a reaction twice\<close>

text \<open>While the reaction has a pill of its own in the container, a second attach changes nothing.\<close>

lemma attach_to_li_recorded_pill:
  "li_container parent_li = Some c \<Longrightarrow> message_id tapback \<in> set (tapback_ids (pills c)) \<Longrightarrow>
     attach_to_li tapback is_dm parent_li = Some parent_li"
  by (simp add: attach_to_li_def)

text \<open>
  C4 fails on the script. \<open>attach_tapback_to_parent\<close> looks for the reaction among the
  \<open>data-tapback-id\<close> attributes of the container, which only individual pills carry.
  Six thumbs-up for message 1 are shown as one grouped pill; attaching the sixth of them
  again is not recognised, the reaction is recorded a second time and the pill counts 7.
\<close>

theorem attach_twice_collapsed_group:
  "map (map_option pills) (parent_containers (attach_all thumbs parent_view)) =
     [Some [Grouped_pill [0x1F44D] 6]]
   \<and> fst (attach_tapback_to_parent (reaction 16 16 [0x1F44D]) False
            (attach_all thumbs parent_view)) = True
   \<and> map (map_option pills)
       (parent_containers (snd (attach_tapback_to_parent (reaction 16 16 [0x1F44D]) False
          (attach_all thumbs parent_view)))) = [Some [Grouped_pill [0x1F44D] 7]]
   \<and> map (map_option (map message_id \<circ> dataset_tapbacks))
       (parent_containers (snd (attach_tapback_to_parent (reaction 16 16 [0x1F44D]) False
          (attach_all thumbs parent_view)))) = [Some [11, 12, 13, 14, 15, 16, 16]]"
  by code_simp

section \<open>The cursors\<close>

text \<open>
  Once both bounds are set, \<open>update_message_cursors\<close> moves the oldest one only backward
  and the newest one only forward, in the order of \<open>(rx_time, id)\<close>.
\<close>

lemma update_message_cursors_outward:
  assumes "messages_oldest_rx_time st = Some t" "messages_oldest_id st = Some i"
    and "messages_newest_rx_time st = Some t'" "messages_newest_id st = Some i'"
  shows "(js_num (messages_oldest_rx_time (update_message_cursors data is_dm st)),
          js_num (messages_oldest_id (update_message_cursors data is_dm st))) \<le> (t, i)"
    and "(t', i') \<le> (js_num (messages_newest_rx_time (update_message_cursors data is_dm st)),
          js_num (messages_newest_id (update_message_cursors data is_dm st)))"
  using assms
  by (auto simp: update_message_cursors_def Let_def js_less_def js_num_def
      split: list.splits option.splits)

text \<open>
  C5 fails on the script. \<open>load_older_messages\<close>, \<open>load_newer_messages\<close> and the poll
  do not call \<open>update_message_cursors\<close>: they assign the first (the last) entry of the
  page to the bound. With the oldest bound at \<open>(100, 1)\<close>, a page holding one entry
  received at 150 moves it forward to \<open>(150, 5)\<close> under \<open>load_older_messages\<close>, where
  \<open>update_message_cursors\<close> leaves it in place. And with the poll and
  \<open>load_newer_messages\<close> both waiting for the entries after 200, the poll's answer (the
  entries of 250 and 260) moves the newest bound to 260, and the answer to
  \<open>load_newer_messages\<close> (the entry of 250, from before the other arrived) moves it
  back to 250.
\<close>

theorem cursor_assigned_without_guard:
  "messages_oldest_rx_time paging_example = Some 100
   \<and> messages_oldest_id paging_example = Some 1
   \<and> messages_oldest_rx_time (load_older_messages example_env one_message_server paging_example)
       = Some 150
   \<and> messages_oldest_id (load_older_messages example_env one_message_server paging_example)
       = Some 5
   \<and> messages_oldest_rx_time
        (update_message_cursors (page_of [plain_message 5 7 150]) False paging_example) = Some 100
   \<and> messages_oldest_id
        (update_message_cursors (page_of [plain_message 5 7 150]) False paging_example) = Some 1
   \<and> messages_newest_rx_time paging_example = Some 200
   \<and> messages_newest_rx_time
        (update_messages_list_finish example_env
           \<lparr>opt_is_dm = False, opt_channel_index = Some 2, opt_after_rx_time = Some 200,
            opt_before_rx_time = None, opt_newest = False\<rparr>
           (Some (page_of [plain_message 5 7 250, plain_message 6 8 260]))
           (paging_example\<lparr>messages_is_loading := True\<rparr>)) = Some 260
   \<and> messages_newest_rx_time
        (load_newer_messages_finish example_env
           \<lparr>opt_is_dm = False, opt_channel_index = Some 2, opt_after_rx_time = Some 200,
            opt_before_rx_time = None, opt_newest = False\<rparr>
           (Some (page_of [plain_message 5 7 250]))
           (update_messages_list_finish example_env
              \<lparr>opt_is_dm = False, opt_channel_index = Some 2, opt_after_rx_time = Some 200,
               opt_before_rx_time = None, opt_newest = False\<rparr>
              (Some (page_of [plain_message 5 7 250, plain_message 6 8 260]))
              (paging_example\<lparr>messages_is_loading := True\<rparr>))) = Some 250"
  by code_simp

section \<open>The read position\<close>

lemma document_list_set_document_list:
  "document_list (set_document_list items st) =
     (case document_list st of None \<Rightarrow> None | Some old \<Rightarrow> Some items)"
  by (simp add: document_list_def set_document_list_def split: content.splits)

lemma set_document_list_frame:
  "local_storage (set_document_list items st) = local_storage st"
  "messages_is_dm (set_document_list items st) = messages_is_dm st"
  "current_channel_index (set_document_list items st) = current_channel_index st"
  "pending_tapbacks (set_document_list items st) = pending_tapbacks st"
  by (simp_all add: set_document_list_def split: content.splits)

lemma get_last_read_cong:
  "local_storage st' = local_storage st \<Longrightarrow>
     get_last_read E is_dm channel_index st' = get_last_read E is_dm channel_index st"
  by (simp add: get_last_read_def)

lemma stored_position_cong:
  "local_storage st' = local_storage st \<Longrightarrow> messages_is_dm st' = messages_is_dm st \<Longrightarrow>
     current_channel_index st' = current_channel_index st \<Longrightarrow>
     stored_position E st' = stored_position E st"
  by (simp add: stored_position_def get_last_read_def)

lemma get_last_read_set_last_read:
  "storage_available E \<Longrightarrow>
     get_last_read E is_dm channel_index (set_last_read E is_dm channel_index mid (Some t) st) =
       Some \<lparr>rp_message_id = mid, rp_rx_time = t\<rparr>"
  by (simp add: get_last_read_def set_last_read_def)

lemma set_last_read_frame:
  "messages_is_dm (set_last_read E d c mid t st) = messages_is_dm st"
  "current_channel_index (set_last_read E d c mid t st) = current_channel_index st"
  "main_content (set_last_read E d c mid t st) = main_content st"
  by (simp_all add: set_last_read_def)

lemma update_read_position_context:
  "messages_is_dm (update_read_position E L st) = messages_is_dm st"
  "current_channel_index (update_read_position E L st) = current_channel_index st"
  by (auto simp: update_read_position_def Let_def set_document_list_frame set_last_read_frame
      split: option.splits prod.splits)

text \<open>What one call does to the stored pair.\<close>

lemma update_read_position_stored:
  assumes "stored_position E st = Some cur"
  shows "stored_position E (update_read_position E L st) =
           (case read_candidate L st of
              None \<Rightarrow> Some cur
            | Some li \<Rightarrow>
                if li_message_id li \<noteq> 0 \<and> parsed_rx_time li \<noteq> 0 \<and> cur < position_of li
                then Some (position_of li) else Some cur)"
    and "local_storage (update_read_position E L st) \<noteq> local_storage st \<Longrightarrow>
           \<exists>li. read_candidate L st = Some li \<and> cur < position_of li
             \<and> stored_position E (update_read_position E L st) = Some (position_of li)"
proof -
  from assms have avail: "storage_available E"
    by (auto simp: stored_position_def get_last_read_def split: if_splits)
  show "stored_position E (update_read_position E L st) =
           (case read_candidate L st of
              None \<Rightarrow> Some cur
            | Some li \<Rightarrow>
                if li_message_id li \<noteq> 0 \<and> parsed_rx_time li \<noteq> 0 \<and> cur < position_of li
                then Some (position_of li) else Some cur)"
    using assms avail
    by (auto simp: update_read_position_def read_candidate_def stored_position_def Let_def
        position_of_def set_document_list_frame set_last_read_frame get_last_read_set_last_read
        get_last_read_cong [OF set_document_list_frame(1)]
        split: option.splits prod.splits)
  show "\<exists>li. read_candidate L st = Some li \<and> cur < position_of li
          \<and> stored_position E (update_read_position E L st) = Some (position_of li)"
    if "local_storage (update_read_position E L st) \<noteq> local_storage st"
    using that assms avail
    by (auto simp: update_read_position_def read_candidate_def stored_position_def Let_def
        position_of_def set_document_list_frame set_last_read_frame get_last_read_set_last_read
        get_last_read_cong [OF set_document_list_frame(1)]
        split: option.splits prod.splits if_splits)
qed

lemma update_read_position_never_decreases:
  assumes "stored_position E st = Some cur"
  shows "\<exists>new. stored_position E (update_read_position E L st) = Some new \<and> cur \<le> new"
proof (cases "read_candidate L st")
  case None
  then show ?thesis
    unfolding update_read_position_stored(1) [OF assms] by (simp del: split_paired_Ex)
next
  case (Some li)
  show ?thesis
  proof (cases "li_message_id li \<noteq> 0 \<and> parsed_rx_time li \<noteq> 0 \<and> cur < position_of li")
    case True
    then show ?thesis
      unfolding update_read_position_stored(1) [OF assms] using Some
      by (simp del: split_paired_Ex add: less_imp_le)
  next
    case False
    then show ?thesis
      unfolding update_read_position_stored(1) [OF assms] using Some
      by (auto simp del: split_paired_Ex)
  qed
qed

lemma repeated_update_never_decreases:
  assumes "stored_position E st = Some cur"
  shows "\<exists>new. stored_position E (fold (update_read_position E) Ls st) = Some new \<and> cur \<le> new"
  using assms
proof (induction Ls arbitrary: st cur)
  case Nil
  then show ?case by simp
next
  case (Cons L Ls)
  from update_read_position_never_decreases [OF Cons.prems, of L]
  obtain mid where mid: "stored_position E (update_read_position E L st) = Some mid" "cur \<le> mid"
    by blast
  from Cons.IH [OF mid(1)]
  obtain new where "stored_position E (fold (update_read_position E) Ls (update_read_position E L st)) = Some new"
    "mid \<le> new"
    by blast
  with mid(2) show ?case
    by (auto intro: order_trans)
qed

text \<open>
  C6. While a read position is stored for the conversation on screen,
  \<open>update_read_position\<close> leaves \<open>localStorage\<close> as it is when the item it would commit
  has a pair \<open>(rx_time, message_id)\<close> that is older than or equal to the stored pair; it
  changes \<open>localStorage\<close> only when that pair is strictly greater than the stored one,
  and then stores that pair. So the stored pair never decreases, in one call or in any
  number of calls one after the other.
\<close>

theorem update_read_position_only_advances:
  assumes "stored_position E st = Some cur"
  shows "(\<forall>li. read_candidate L st = Some li \<and> position_of li \<le> cur
            \<longrightarrow> local_storage (update_read_position E L st) = local_storage st)
         \<and> (local_storage (update_read_position E L st) \<noteq> local_storage st
            \<longrightarrow> (\<exists>li. read_candidate L st = Some li \<and> cur < position_of li
                  \<and> stored_position E (update_read_position E L st) = Some (position_of li)))
         \<and> (\<exists>new. stored_position E (update_read_position E L st) = Some new \<and> cur \<le> new)
         \<and> (\<exists>new. stored_position E (fold (update_read_position E) Ls st) = Some new
                \<and> cur \<le> new)"
proof (intro conjI allI impI)
  fix li
  assume "read_candidate L st = Some li \<and> position_of li \<le> cur"
  then show "local_storage (update_read_position E L st) = local_storage st"
    using update_read_position_stored(2) [OF assms, of L] by fastforce
next
  assume changed: "local_storage (update_read_position E L st) \<noteq> local_storage st"
  then show "\<exists>li. read_candidate L st = Some li \<and> cur < position_of li
                  \<and> stored_position E (update_read_position E L st) = Some (position_of li)"
    by (rule update_read_position_stored(2) [OF assms])
next
  show "\<exists>new. stored_position E (update_read_position E L st) = Some new \<and> cur \<le> new"
    using assms by (rule update_read_position_never_decreases)
next
  show "\<exists>new. stored_position E (fold (update_read_position E) Ls st) = Some new \<and> cur \<le> new"
    using assms by (rule repeated_update_never_decreases)
qed

theorem update_read_position_only_advances_witness:
  "stored_position example_env reading_example = Some (50, 3)
   \<and> map_option position_of (read_candidate first_visible reading_example) = Some (50, 3)
   \<and> local_storage (update_read_position example_env first_visible reading_example) =
       local_storage reading_example
   \<and> map_option position_of (read_candidate both_visible reading_example) = Some (60, 4)
   \<and> stored_position example_env (update_read_position example_env both_visible reading_example) =
       Some (60, 4)"
proof -
  have stored: "stored_position example_env reading_example = Some (50, 3)"
    by code_simp
  have first: "map_option position_of (read_candidate first_visible reading_example) = Some (50, 3)"
    by code_simp
  then obtain li where li: "read_candidate first_visible reading_example = Some li"
    "position_of li = (50, 3)"
    by auto
  have both: "map_option position_of (read_candidate both_visible reading_example) = Some (60, 4)"
    by code_simp
  have after: "stored_position example_env
      (update_read_position example_env both_visible reading_example) = Some (60, 4)"
    by code_simp
  from update_read_position_only_advances [OF stored, of first_visible] li
  have "local_storage (update_read_position example_env first_visible reading_example) =
       local_storage reading_example"
    by auto
  with stored first both after show ?thesis
    by blast
qed

section \<open>The loading guard\<close>

text \<open>
  Loading older, loading newer and the jump to newest return at once while
  \<open>messages_is_loading\<close> is set, as does the poll; the first three set the flag for the
  time their fetch is in flight.
\<close>

lemma loading_guard_blocks:
  assumes "messages_is_loading st"
  shows "load_older_messages_begin st = None" "load_newer_messages_begin st = None"
    "handle_jump_to_newest_begin st = None" "update_messages_list_begin is_dm st = None"
  using assms
  by (simp_all add: load_older_messages_begin_def load_newer_messages_begin_def
      handle_jump_to_newest_begin_def update_messages_list_begin_def)

lemma guard_taken:
  "load_older_messages_begin st = Some (options, st1) \<Longrightarrow> messages_is_loading st1"
  "load_newer_messages_begin st = Some (options, st1) \<Longrightarrow> messages_is_loading st1"
  "handle_jump_to_newest_begin st = Some (options, st1) \<Longrightarrow> messages_is_loading st1"
  by (auto simp: load_older_messages_begin_def load_newer_messages_begin_def
      handle_jump_to_newest_begin_def clear_pending_tapbacks_def split: if_splits)

lemma poll_leaves_guard_open:
  "update_messages_list_begin is_dm st = Some (options, st1) \<Longrightarrow>
     st1 = st \<and> \<not> messages_is_loading st1"
  by (auto simp: update_messages_list_begin_def split: if_splits)

text \<open>
  C8 fails on the script. The poll, \<open>update_messages_list\<close>, tests
  \<open>messages_is_loading\<close> but never sets it. While its fetch is in flight the state is as
  before, and \<open>load_newer_messages\<close> gets past its guard and starts a second fetch after
  the same cursor. When both fetches return the page with message 7, the message is
  appended twice.
\<close>

theorem poll_does_not_hold_the_guard:
  "update_messages_list_begin False paging_example =
     Some (\<lparr>opt_is_dm = False, opt_channel_index = Some 2, opt_after_rx_time = Some 200,
            opt_before_rx_time = None, opt_newest = False\<rparr>, paging_example)
   \<and> load_newer_messages_begin paging_example =
     Some (\<lparr>opt_is_dm = False, opt_channel_index = Some 2, opt_after_rx_time = Some 200,
            opt_before_rx_time = None, opt_newest = False\<rparr>,
           paging_example\<lparr>messages_is_loading := True\<rparr>)
   \<and> window_ids paging_example = []
   \<and> window_ids
       (update_messages_list_finish example_env
          \<lparr>opt_is_dm = False, opt_channel_index = Some 2, opt_after_rx_time = Some 200,
           opt_before_rx_time = None, opt_newest = False\<rparr>
          (Some (page_of [plain_message 5 7 250]))
          (load_newer_messages_finish example_env
             \<lparr>opt_is_dm = False, opt_channel_index = Some 2, opt_after_rx_time = Some 200,
              opt_before_rx_time = None, opt_newest = False\<rparr>
             (Some (page_of [plain_message 5 7 250]))
             (paging_example\<lparr>messages_is_loading := True\<rparr>))) = [7, 7]"
proof -
  have poll: "update_messages_list_begin False paging_example =
     Some (\<lparr>opt_is_dm = False, opt_channel_index = Some 2, opt_after_rx_time = Some 200,
            opt_before_rx_time = None, opt_newest = False\<rparr>, paging_example)"
    by (simp add: update_messages_list_begin_def paging_example_def initial_app_state_def
        document_list_def)
  have newer: "load_newer_messages_begin paging_example =
     Some (\<lparr>opt_is_dm = False, opt_channel_index = Some 2, opt_after_rx_time = Some 200,
            opt_before_rx_time = None, opt_newest = False\<rparr>,
           paging_example\<lparr>messages_is_loading := True\<rparr>)"
    by (simp add: load_newer_messages_begin_def paging_example_def initial_app_state_def
        document_list_def)
  have before: "window_ids paging_example = []"
    by code_simp
  have twice: "window_ids
       (update_messages_list_finish example_env
          \<lparr>opt_is_dm = False, opt_channel_index = Some 2, opt_after_rx_time = Some 200,
           opt_before_rx_time = None, opt_newest = False\<rparr>
          (Some (page_of [plain_message 5 7 250]))
          (load_newer_messages_finish example_env
             \<lparr>opt_is_dm = False, opt_channel_index = Some 2, opt_after_rx_time = Some 200,
              opt_before_rx_time = None, opt_newest = False\<rparr>
             (Some (page_of [plain_message 5 7 250]))
             (paging_example\<lparr>messages_is_loading := True\<rparr>))) = [7, 7]"
    by code_simp
  from poll newer before twice show ?thesis
    by blast
qed

section \<open>Merging a page into the window\<close>

text \<open>
  Attaching reactions and flushing the pending ones change neither the heading nor the
  message ids of the list on screen.
\<close>

lemma window_ids_window_of:
  "window_ids st = (case window_of (main_content st) of None \<Rightarrow> [] | Some (h, ids) \<Rightarrow> ids)"
  by (simp add: window_ids_def window_of_def document_list_def split: content.splits)

lemma window_of_set_document_list:
  "document_list st = Some old \<Longrightarrow> map li_message_id items = map li_message_id old \<Longrightarrow>
     window_of (main_content (set_document_list items st)) = window_of (main_content st)"
  by (auto simp: window_of_def set_document_list_def document_list_def split: content.splits)

lemma update_first_ids:
  "find P items = Some p \<Longrightarrow> li_message_id q = li_message_id p \<Longrightarrow>
     map li_message_id (update_first P (\<lambda>x. q) items) = map li_message_id items"
  by (induction items) (auto split: if_splits)

lemma attach_to_li_id:
  "attach_to_li tapback is_dm p = Some q \<Longrightarrow> li_message_id q = li_message_id p"
  by (auto simp: attach_to_li_def Let_def split: option.splits if_splits)

lemma attach_window:
  "window_of (main_content (snd (attach_tapback_to_parent tapback is_dm st))) =
     window_of (main_content st)"
  by (auto simp: attach_tapback_to_parent_def window_of_set_document_list update_first_ids
      attach_to_li_id split: option.splits)

lemma store_pending_main_content:
  "main_content (store_pending_tapback tapback st) = main_content st"
  by (simp add: store_pending_tapback_def)

lemma attach_or_store_window:
  "window_of (main_content (attach_or_store is_dm tapback st)) = window_of (main_content st)"
proof (cases "attach_tapback_to_parent tapback is_dm st")
  case (Pair attached st')
  with attach_window [of tapback is_dm st] show ?thesis
    by (simp add: attach_or_store_def store_pending_main_content)
qed

lemma fold_attach_or_store_window:
  "window_of (main_content (fold (attach_or_store is_dm) tapbacks st)) =
     window_of (main_content st)"
  by (induction tapbacks arbitrary: st) (simp_all add: attach_or_store_window)

lemma fold_attach_window:
  "window_of (main_content
      (fold (\<lambda>tapback s. snd (attach_tapback_to_parent tapback is_dm s)) tapbacks st)) =
     window_of (main_content st)"
  by (induction tapbacks arbitrary: st) (simp_all add: attach_window)

lemma flush_entry_window:
  "window_of (main_content (fst (flush_entry is_dm entry (st, resolved)))) =
     window_of (main_content st)"
  by (cases entry) (simp add: flush_entry_def fold_attach_window)

lemma fold_flush_entry_window:
  "window_of (main_content (fst (fold (flush_entry is_dm) pending acc))) =
     window_of (main_content (fst acc))"
proof (induction pending arbitrary: acc)
  case Nil
  then show ?case by simp
next
  case (Cons entry pending)
  show ?case
    using Cons.IH [of "flush_entry is_dm entry acc"] flush_entry_window [of is_dm entry "fst acc" "snd acc"]
    by simp
qed

lemma flush_window:
  "window_of (main_content (flush_pending_tapbacks is_dm st)) = window_of (main_content st)"
proof (cases "fold (flush_entry is_dm) (pending_tapbacks st) (st, [])")
  case (Pair st' resolved)
  with fold_flush_entry_window [of is_dm "pending_tapbacks st" "(st, [])"] show ?thesis
    by (simp add: flush_pending_tapbacks_def)
qed

lemma render_items_ids:
  "has_item_template E \<Longrightarrow>
     map li_message_id (render_items E normal is_dm) = map message_id normal"
  by (induction normal) (simp_all add: render_items_def List.map_filter_simps create_message_item_def)

lemma window_ids_cong:
  "window_of (main_content st') = window_of (main_content st) \<Longrightarrow> window_ids st' = window_ids st"
  by (simp add: window_ids_window_of)

lemma window_ids_set_document_list:
  "document_list st \<noteq> None \<Longrightarrow>
     window_ids (set_document_list items st) = map li_message_id items"
  by (auto simp: window_ids_def set_document_list_def document_list_def split: content.splits)

lemma merged_window_ids:
  "window_ids (flush_pending_tapbacks is_dm (fold (attach_or_store is_dm) tapbacks st)) =
     window_ids st"
  by (rule window_ids_cong) (simp add: flush_window fold_attach_or_store_window)

lemma mark_message_read_id: "li_message_id (mark_message_read li) = li_message_id li"
  by (simp add: mark_message_read_def)

lemma append_window_ids:
  assumes "has_item_template E" "document_list st \<noteq> None"
  shows "window_ids (snd (append_messages_to_list E Ul_document messages is_dm st)) =
           window_ids st @ primary_ids E messages"
proof -
  from assms(2) obtain items where items: "document_list st = Some items"
    by auto
  then have ids: "window_ids st = map li_message_id items"
    by (simp add: window_ids_def)
  show ?thesis
    using assms items
    by (simp add: append_messages_to_list_def ul_append_def Let_def merged_window_ids
        window_ids_set_document_list ids render_items_ids primary_ids_def)
qed

lemma prepend_window_ids:
  assumes "has_item_template E" "document_list st \<noteq> None"
  shows "window_ids (snd (prepend_messages_to_list E Ul_document messages is_dm st)) =
           primary_ids E messages @ window_ids st"
proof -
  from assms(2) obtain items where items: "document_list st = Some items"
    by auto
  then have ids: "window_ids st = map li_message_id items"
    by (simp add: window_ids_def)
  have log: "window_ids (s\<lparr>scroll_log := l\<rparr>) = window_ids s" for s l
    by (simp add: window_ids_def document_list_def)
  show ?thesis
    using assms items
    by (simp add: prepend_messages_to_list_def ul_insert_first_def Let_def merged_window_ids
        window_ids_set_document_list ids render_items_ids primary_ids_def log
        mark_message_read_id comp_def)
qed


text \<open>
  C1, as the script has it. A merge of a page into the list of the document, by
  \<open>append_messages_to_list\<close> or \<open>prepend_messages_to_list\<close>, inserts every primary
  entry of the page at its edge of the window, in page order, whether or not an item with
  the same \<open>message_id\<close> is there already: the script has no duplicate check for primary
  entries. So the window after the merge is free of duplicates exactly when the window
  before was, the primary entries of the page have message ids distinct from each other,
  and none of them was in the window.
\<close>

theorem merge_inserts_every_primary_entry:
  assumes "has_item_template E" "document_list st \<noteq> None"
  shows "window_ids (snd (append_messages_to_list E Ul_document messages is_dm st)) =
           window_ids st @ primary_ids E messages
         \<and> window_ids (snd (prepend_messages_to_list E Ul_document messages is_dm st)) =
           primary_ids E messages @ window_ids st
         \<and> (distinct (window_ids (snd (append_messages_to_list E Ul_document messages is_dm st)))
            \<longleftrightarrow> distinct (window_ids st) \<and> distinct (primary_ids E messages)
                \<and> set (window_ids st) \<inter> set (primary_ids E messages) = {})
         \<and> (distinct (window_ids (snd (prepend_messages_to_list E Ul_document messages is_dm st)))
            \<longleftrightarrow> distinct (window_ids st) \<and> distinct (primary_ids E messages)
                \<and> set (window_ids st) \<inter> set (primary_ids E messages) = {})"
  unfolding append_window_ids [OF assms] prepend_window_ids [OF assms]
  by auto

theorem merge_inserts_every_primary_entry_witness:
  "has_item_template example_env \<and> document_list parent_view \<noteq> None
   \<and> window_ids parent_view = [1]
   \<and> primary_ids example_env [plain_message 5 7 250, reaction 6 6 [0x1F44D]] = [7]
   \<and> window_ids (snd (append_messages_to_list example_env Ul_document
         [plain_message 5 7 250, reaction 6 6 [0x1F44D]] False parent_view)) = [1, 7]
   \<and> window_ids (snd (prepend_messages_to_list example_env Ul_document
         [plain_message 5 7 250, reaction 6 6 [0x1F44D]] False parent_view)) = [7, 1]"
proof -
  have t: "has_item_template example_env"
    by code_simp
  have d: "document_list parent_view \<noteq> None"
    by code_simp
  have w: "window_ids parent_view = [1]"
    by code_simp
  have p: "primary_ids example_env [plain_message 5 7 250, reaction 6 6 [0x1F44D]] = [7]"
    by code_simp
  from merge_inserts_every_primary_entry [OF t d, of "[plain_message 5 7 250, reaction 6 6 [0x1F44D]]" False]
  show ?thesis
    using t d w p by simp
qed

text \<open>
  A page that brings message 1 again, into a window that shows message 1: the message is
  inserted a second time, by either merge.
\<close>

theorem merge_duplicate_counterexample:
  "window_ids parent_view = [1]
   \<and> primary_ids example_env [plain_message 5 1 250] = [1]
   \<and> window_ids (snd (append_messages_to_list example_env Ul_document
         [plain_message 5 1 250] False parent_view)) = [1, 1]
   \<and> window_ids (snd (prepend_messages_to_list example_env Ul_document
         [plain_message 5 1 250] False parent_view)) = [1, 1]
   \<and> \<not> distinct (window_ids (snd (append_messages_to_list example_env Ul_document
         [plain_message 5 1 250] False parent_view)))"
  by code_simp

section \<open>Resuming from a pruned read position\<close>




















end
